theory Spec2Isabelle
  imports Complex_Main
begin

section \<open>JavaScript numbers\<close>

text \<open>
  The TypeScript type \<open>number\<close> is an IEEE double. It is modelled as a real number
  extended by the two infinities and NaN, so that the special values flow through
  \<open>Math.min\<close>, \<open>Math.max\<close>, \<open>Math.round\<close> and \<open>>\<close> as they do in the engine.
  Finite arithmetic is exact here: the rounding error of a double operation and the sign
  of zero are not modelled (no divisor in the modelled code can be a negative zero).
\<close>

datatype number = Num real | PosInfinity | NegInfinity | NaN

fun isNaN :: "number \<Rightarrow> bool" where
  "isNaN NaN = True"
| "isNaN _ = False"


text \<open>The infinity with the sign of a nonzero real.\<close>

definition signedInfinity :: "real \<Rightarrow> number" where
  "signedInfinity a = (if 0 < a then PosInfinity else NegInfinity)"

fun js_times :: "number \<Rightarrow> number \<Rightarrow> number" where
  "js_times NaN _ = NaN"
| "js_times _ NaN = NaN"
| "js_times (Num a) (Num b) = Num (a * b)"
| "js_times (Num a) PosInfinity = (if a = 0 then NaN else signedInfinity a)"
| "js_times (Num a) NegInfinity = (if a = 0 then NaN else signedInfinity (- a))"
| "js_times PosInfinity (Num b) = (if b = 0 then NaN else signedInfinity b)"
| "js_times NegInfinity (Num b) = (if b = 0 then NaN else signedInfinity (- b))"
| "js_times PosInfinity PosInfinity = PosInfinity"
| "js_times PosInfinity NegInfinity = NegInfinity"
| "js_times NegInfinity PosInfinity = NegInfinity"
| "js_times NegInfinity NegInfinity = PosInfinity"

fun js_plus :: "number \<Rightarrow> number \<Rightarrow> number" where
  "js_plus NaN _ = NaN"
| "js_plus _ NaN = NaN"
| "js_plus (Num a) (Num b) = Num (a + b)"
| "js_plus (Num a) PosInfinity = PosInfinity"
| "js_plus (Num a) NegInfinity = NegInfinity"
| "js_plus PosInfinity (Num b) = PosInfinity"
| "js_plus NegInfinity (Num b) = NegInfinity"
| "js_plus PosInfinity PosInfinity = PosInfinity"
| "js_plus PosInfinity NegInfinity = NaN"
| "js_plus NegInfinity PosInfinity = NaN"
| "js_plus NegInfinity NegInfinity = NegInfinity"



text \<open>The relational operator \<open>x > y\<close>: false as soon as an operand is NaN.\<close>

fun js_gt :: "number \<Rightarrow> number \<Rightarrow> bool" where
  "js_gt NaN _ = False"
| "js_gt _ NaN = False"
| "js_gt (Num a) (Num b) = (b < a)"
| "js_gt (Num a) PosInfinity = False"
| "js_gt (Num a) NegInfinity = True"
| "js_gt PosInfinity (Num b) = True"
| "js_gt NegInfinity (Num b) = False"
| "js_gt PosInfinity PosInfinity = False"
| "js_gt PosInfinity NegInfinity = True"
| "js_gt NegInfinity PosInfinity = False"
| "js_gt NegInfinity NegInfinity = False"

text \<open>\<open>Math.max\<close> and \<open>Math.min\<close> of two arguments: NaN as soon as an argument is NaN.\<close>

definition Math_max :: "number \<Rightarrow> number \<Rightarrow> number" where
  "Math_max x y = (if isNaN x \<or> isNaN y then NaN else if js_gt y x then y else x)"

definition Math_min :: "number \<Rightarrow> number \<Rightarrow> number" where
  "Math_min x y = (if isNaN x \<or> isNaN y then NaN else if js_gt x y then y else x)"

text \<open>\<open>Math.round\<close>: the integer nearest to the argument, a tie going up; NaN and the
  infinities are returned as they are.\<close>

fun Math_round :: "number \<Rightarrow> number" where
  "Math_round (Num a) = Num (of_int \<lfloor>a + 1 / 2\<rfloor>)"
| "Math_round x = x"

text \<open>Reading a \<open>Float32Array\<close> by index. Out of range the engine gives \<open>undefined\<close>,
  which every use in the modelled code (\<open>*\<close>, \<open>>\<close>, \<open>Math.max\<close>) converts to NaN.\<close>

definition typedArrayGet :: "number list \<Rightarrow> nat \<Rightarrow> number" where
  "typedArrayGet xs i = (if i < length xs then xs ! i else NaN)"

section \<open>The model manager (\<open>src/lib/ml-models.ts\<close>)\<close>

subsection \<open>Data\<close>

datatype gender = Male | Female

record AgeGenderPrediction =
  age :: number
  gender :: gender
  ageConfidence :: number
  genderConfidence :: number

record ModelLoadingState =
  isLoading :: bool
  isLoaded :: bool
  error :: "string option"
  progress :: nat

text \<open>A value thrown by the library: an \<open>Error\<close> instance with its message, or any other
  value (what \<open>error instanceof Error\<close> tells apart).\<close>

datatype exn = Error string | NonError

text \<open>The two compiled models, the tensor buffers the manager gets hold of, and what the
  manager asks of the TensorFlow.js engine, in the order it asks. A log of these events
  does what an allocation counter does: it shows a buffer that is never released, or
  released twice.\<close>

datatype layersModel = AgeModel | GenderModel

datatype tensor =
  PreprocessedImage | AgePrediction | GenderPrediction
| DummyInput | WarmupAgeOutput | WarmupGenderOutput

datatype event =
  Preprocess
| Forward layersModel
| ReadBack tensor
| Alloc tensor
| Release tensor
| Construct layersModel
| DisposeModel layersModel

text \<open>The class \<open>MLModelManager\<close> with its four fields. The fifth, \<open>tfLog\<close>, is not a field
  of the class: it is the engine's record of what \<open>loadModels\<close> and \<open>dispose\<close> asked of
  it, carried along with the manager.\<close>

record MLModelManager =
  ageModel :: "layersModel option"
  genderModel :: "layersModel option"
  isInitialized :: bool
  loadingState :: ModelLoadingState
  tfLog :: "event list"

text \<open>The singleton \<open>modelManager\<close> as the module creates it.\<close>

definition modelManager :: MLModelManager where
  "modelManager =
     \<lparr>ageModel = None, genderModel = None, isInitialized = False,
      loadingState = \<lparr>isLoading = False, isLoaded = False, error = None, progress = 0\<rparr>,
      tfLog = []\<rparr>"

definition getLoadingState :: "MLModelManager \<Rightarrow> ModelLoadingState" where
  "getLoadingState m = loadingState m"


subsection \<open>\<open>predict\<close>\<close>

record ImageData =
  width :: nat
  height :: nat
  data :: "nat list"

text \<open>What the library does during one call of \<open>predict\<close> is a parameter: whether
  \<open>tf.tidy\<close> around the preprocessing returns the tensor or throws, whether each forward
  pass returns its output tensor or throws, what each \<open>data()\<close> resolves to or rejects
  with, and the value of \<open>Math.random()\<close>. \<open>tf.tidy\<close> releases the intermediate tensors
  of the preprocessing itself, on return and on throw; \<open>dispose()\<close> of a tensor does not
  throw.\<close>

record tf_predict =
  preprocessImage :: "ImageData \<Rightarrow> exn option"
  ageForward :: "ImageData \<Rightarrow> exn option"
  ageData :: "ImageData \<Rightarrow> exn + number list"
  genderForward :: "ImageData \<Rightarrow> exn option"
  genderData :: "ImageData \<Rightarrow> exn + number list"
  random :: real

definition NotLoadedError :: exn where
  "NotLoadedError = Error ''Models not loaded. Call loadModels() first.''"

text \<open>The body of the \<open>try\<close> block: the log so far in, the log and either the thrown
  value or the prediction out.\<close>

definition predict_try ::
  "tf_predict \<Rightarrow> ImageData \<Rightarrow> layersModel \<Rightarrow> layersModel \<Rightarrow> event list
     \<Rightarrow> event list \<times> (exn + AgeGenderPrediction)" where
  "predict_try tf imageData am gm log0 =
     (let log1 = log0 @ [Forward am] in
      case ageForward tf imageData of
        Some e \<Rightarrow> (log1, Inl e)
      | None \<Rightarrow>
     (let log2 = log1 @ [Alloc AgePrediction, ReadBack AgePrediction] in
      case ageData tf imageData of
        Inl e \<Rightarrow> (log2, Inl e)
      | Inr ageValue \<Rightarrow>
     (let predictedAge =
            Math_max (Num 0)
              (Math_min (Num 100)
                 (js_plus (js_times (typedArrayGet ageValue 0) (Num 100)) (Num 25)));
          log3 = log2 @ [Forward gm] in
      case genderForward tf imageData of
        Some e \<Rightarrow> (log3, Inl e)
      | None \<Rightarrow>
     (let log4 = log3 @ [Alloc GenderPrediction, ReadBack GenderPrediction] in
      case genderData tf imageData of
        Inl e \<Rightarrow> (log4, Inl e)
      | Inr genderProbs \<Rightarrow>
     (let maleProb = typedArrayGet genderProbs 0;
          femaleProb = typedArrayGet genderProbs 1;
          predictedGender = (if js_gt maleProb femaleProb then Male else Female);
          genderConfidence = Math_max maleProb femaleProb;
          log5 = log4 @ [Release AgePrediction, Release GenderPrediction,
                         Release PreprocessedImage]
      in (log5,
          Inr \<lparr>age = Math_round predictedAge,
               gender = predictedGender,
               ageConfidence = js_plus (Num (75 / 100)) (js_times (Num (random tf)) (Num (2 / 10))),
               genderConfidence = genderConfidence\<rparr>))))))"

text \<open>The \<open>catch\<close> block: it releases the input and rethrows, wrapped.\<close>

definition predict_catch ::
  "event list \<times> (exn + AgeGenderPrediction) \<Rightarrow> event list \<times> (exn + AgeGenderPrediction)" where
  "predict_catch outcome =
     (case outcome of
        (evs, Inr r) \<Rightarrow> (evs, Inr r)
      | (evs, Inl e) \<Rightarrow>
          (evs @ [Release PreprocessedImage],
           Inl (Error (''Prediction failed: '' @
                  (case e of Error msg \<Rightarrow> msg | NonError \<Rightarrow> ''Unknown error'')))))"

text \<open>\<open>predict\<close>: the guard, the preprocessing outside the \<open>try\<close>, then the \<open>try\<close> block
  under its \<open>catch\<close>.\<close>

definition predict ::
  "tf_predict \<Rightarrow> ImageData \<Rightarrow> MLModelManager \<Rightarrow> event list \<times> (exn + AgeGenderPrediction)" where
  "predict tf imageData m =
     (case (isInitialized m, ageModel m, genderModel m) of
        (True, Some am, Some gm) \<Rightarrow>
          (case preprocessImage tf imageData of
             Some e \<Rightarrow> ([Preprocess], Inl e)
           | None \<Rightarrow>
               predict_catch
                 (predict_try tf imageData am gm [Preprocess, Alloc PreprocessedImage]))
      | _ \<Rightarrow> ([], Inl NotLoadedError))"

text \<open>Reading the log: the buffers handed out, how often one was released, and the
  buffers handed out and never released.\<close>

definition allocated :: "event list \<Rightarrow> tensor list" where
  "allocated evs = concat (map (\<lambda>ev. case ev of Alloc t \<Rightarrow> [t] | _ \<Rightarrow> []) evs)"

definition releases :: "event list \<Rightarrow> tensor \<Rightarrow> nat" where
  "releases evs t = count_list evs (Release t)"

definition leaked :: "event list \<Rightarrow> tensor list" where
  "leaked evs = filter (\<lambda>t. releases evs t = 0) (allocated evs)"

subsection \<open>\<open>loadModels\<close>\<close>

text \<open>What the library does during one call of \<open>loadModels\<close>, in the order the code
  asks: \<open>None\<close> when the call returns (or the promise resolves), the thrown value
  otherwise.\<close>

record tf_load =
  tfReady :: "exn option"
  createAgeModel :: "exn option"
  createGenderModel :: "exn option"
  tfZeros :: "exn option"
  ageWarmup :: "exn option"
  genderWarmup :: "exn option"

definition setIsLoading :: "bool \<Rightarrow> MLModelManager \<Rightarrow> MLModelManager" where
  "setIsLoading b m = m\<lparr>loadingState := (loadingState m)\<lparr>isLoading := b\<rparr>\<rparr>"

definition setIsLoaded :: "bool \<Rightarrow> MLModelManager \<Rightarrow> MLModelManager" where
  "setIsLoaded b m = m\<lparr>loadingState := (loadingState m)\<lparr>isLoaded := b\<rparr>\<rparr>"

definition setError :: "string option \<Rightarrow> MLModelManager \<Rightarrow> MLModelManager" where
  "setError e m = m\<lparr>loadingState := (loadingState m)\<lparr>error := e\<rparr>\<rparr>"

definition setProgress :: "nat \<Rightarrow> MLModelManager \<Rightarrow> MLModelManager" where
  "setProgress p m = m\<lparr>loadingState := (loadingState m)\<lparr>progress := p\<rparr>\<rparr>"

definition logEvent :: "event \<Rightarrow> MLModelManager \<Rightarrow> MLModelManager" where
  "logEvent ev m = m\<lparr>tfLog := tfLog m @ [ev]\<rparr>"

text \<open>
  \<open>loadModels\<close> is an \<open>async\<close> function with three \<open>await\<close>s. Between two of them the
  code runs without interruption; at an \<open>await\<close> the call is suspended, and a poller, a
  second call of \<open>loadModels\<close> or \<open>dispose\<close> can run on the same manager. Each stretch
  is a function from the manager it resumes on to the managers after each of its
  assignments, in order, and the place where the call is then.
\<close>

datatype loc = AwaitTfReady | AwaitAgeWarmup | AwaitGenderWarmup | Returned

text \<open>The \<open>catch\<close> and the \<open>finally\<close> block.\<close>

definition loadModels_catch :: "exn \<Rightarrow> MLModelManager \<Rightarrow> MLModelManager list" where
  "loadModels_catch e m =
     (let m1 = setError (Some (case e of Error msg \<Rightarrow> msg
                                      | NonError \<Rightarrow> ''Failed to load models'')) m;
          m2 = setIsLoading False m1
      in [m1, m2])"

text \<open>From the call to \<open>await tf.ready()\<close>.\<close>

definition loadModels_enter :: "MLModelManager \<Rightarrow> MLModelManager list \<times> loc" where
  "loadModels_enter m =
     (if isInitialized m then ([], Returned)
      else
        (let m1 = setIsLoading True m;
             m2 = setError None m1;
             m3 = setProgress 0 m2
         in ([m1, m2, m3], AwaitTfReady)))"

text \<open>From \<open>tf.ready()\<close> settling to \<open>await this.ageModel.predict(dummyInput)\<close>.\<close>

definition loadModels_afterReady :: "tf_load \<Rightarrow> MLModelManager \<Rightarrow> MLModelManager list \<times> loc" where
  "loadModels_afterReady tf m =
     (case tfReady tf of
        Some e \<Rightarrow> (loadModels_catch e m, Returned)
      | None \<Rightarrow>
     (let m1 = setProgress 20 m in
      case createAgeModel tf of
        Some e \<Rightarrow> ([m1] @ loadModels_catch e m1, Returned)
      | None \<Rightarrow>
     (let m2 = logEvent (Construct AgeModel) (m1\<lparr>ageModel := Some AgeModel\<rparr>);
          m3 = setProgress 60 m2 in
      case createGenderModel tf of
        Some e \<Rightarrow> ([m1, m2, m3] @ loadModels_catch e m3, Returned)
      | None \<Rightarrow>
     (let m4 = logEvent (Construct GenderModel) (m3\<lparr>genderModel := Some GenderModel\<rparr>);
          m5 = setProgress 90 m4 in
      case tfZeros tf of
        Some e \<Rightarrow> ([m1, m2, m3, m4, m5] @ loadModels_catch e m5, Returned)
      | None \<Rightarrow>
     (let m6 = logEvent (Alloc DummyInput) m5;
          m7 = logEvent (Forward AgeModel) m6 in
      case ageWarmup tf of
        Some e \<Rightarrow> ([m1, m2, m3, m4, m5, m6, m7] @ loadModels_catch e m7, Returned)
      | None \<Rightarrow>
     (let m8 = logEvent (Alloc WarmupAgeOutput) m7
      in ([m1, m2, m3, m4, m5, m6, m7, m8], AwaitAgeWarmup)))))))"

text \<open>From there to \<open>await this.genderModel.predict(dummyInput)\<close>. The field
  \<open>this.genderModel\<close> is read when the call resumes: had \<open>dispose\<close> run in between, the
  method call on \<open>null\<close> throws a \<open>TypeError\<close> (its message is the engine's).\<close>

definition loadModels_afterAgeWarmup ::
  "tf_load \<Rightarrow> MLModelManager \<Rightarrow> MLModelManager list \<times> loc" where
  "loadModels_afterAgeWarmup tf m =
     (case genderModel m of
        None \<Rightarrow> (loadModels_catch (Error ''Cannot read properties of null'') m, Returned)
      | Some gm \<Rightarrow>
     (let m1 = logEvent (Forward gm) m in
      case genderWarmup tf of
        Some e \<Rightarrow> ([m1] @ loadModels_catch e m1, Returned)
      | None \<Rightarrow>
     (let m2 = logEvent (Alloc WarmupGenderOutput) m1
      in ([m1, m2], AwaitGenderWarmup))))"

text \<open>From there to the end: the dummy input is released, the state is published, and
  the \<open>finally\<close> block runs.\<close>

definition loadModels_afterGenderWarmup :: "MLModelManager \<Rightarrow> MLModelManager list \<times> loc" where
  "loadModels_afterGenderWarmup m =
     (let m1 = logEvent (Release DummyInput) m;
          m2 = setProgress 100 m1;
          m3 = setIsLoaded True m2;
          m4 = m3\<lparr>isInitialized := True\<rparr>;
          m5 = setIsLoading False m4
      in ([m1, m2, m3, m4, m5], Returned))"

text \<open>The manager after a stretch that started on \<open>m\<close>.\<close>

definition current :: "MLModelManager \<Rightarrow> MLModelManager list \<Rightarrow> MLModelManager" where
  "current m tr = (if tr = [] then m else last tr)"

text \<open>One call of \<open>loadModels\<close> that nothing else interleaves with: the managers after
  each assignment, from the first to the return.\<close>

definition loadModels :: "tf_load \<Rightarrow> MLModelManager \<Rightarrow> MLModelManager list" where
  "loadModels tf m =
     (case loadModels_enter m of (t0, l0) \<Rightarrow>
      if l0 = Returned then t0 else
     (case loadModels_afterReady tf (current m t0) of (t1, l1) \<Rightarrow>
      if l1 = Returned then t0 @ t1 else
     (case loadModels_afterAgeWarmup tf (current m (t0 @ t1)) of (t2, l2) \<Rightarrow>
      if l2 = Returned then t0 @ t1 @ t2 else
     (case loadModels_afterGenderWarmup (current m (t0 @ t1 @ t2)) of (t3, l3) \<Rightarrow>
      t0 @ t1 @ t2 @ t3))))"

text \<open>The managers at which that call is suspended, one for each \<open>await\<close> it reaches:
  what a poller, or a second call, can find while the load is in progress.\<close>

definition suspensions :: "tf_load \<Rightarrow> MLModelManager \<Rightarrow> MLModelManager list" where
  "suspensions tf m =
     (case loadModels_enter m of (t0, l0) \<Rightarrow>
      if l0 = Returned then [] else
      current m t0 #
     (case loadModels_afterReady tf (current m t0) of (t1, l1) \<Rightarrow>
      if l1 = Returned then [] else
      current m (t0 @ t1) #
     (case loadModels_afterAgeWarmup tf (current m (t0 @ t1)) of (t2, l2) \<Rightarrow>
      if l2 = Returned then [] else [current m (t0 @ t1 @ t2)])))"

definition loaded :: "tf_load \<Rightarrow> MLModelManager \<Rightarrow> MLModelManager" where
  "loaded tf m = current m (loadModels tf m)"

text \<open>The first call that throws, in the order of the code.\<close>

definition firstFailure :: "tf_load \<Rightarrow> exn option" where
  "firstFailure tf =
     (case tfReady tf of Some e \<Rightarrow> Some e | None \<Rightarrow>
     (case createAgeModel tf of Some e \<Rightarrow> Some e | None \<Rightarrow>
     (case createGenderModel tf of Some e \<Rightarrow> Some e | None \<Rightarrow>
     (case tfZeros tf of Some e \<Rightarrow> Some e | None \<Rightarrow>
     (case ageWarmup tf of Some e \<Rightarrow> Some e | None \<Rightarrow> genderWarmup tf)))))"

definition progressOf :: "MLModelManager \<Rightarrow> nat" where
  "progressOf m = progress (getLoadingState m)"


definition modelDisposals :: "event list \<Rightarrow> event list" where
  "modelDisposals evs = filter (\<lambda>ev. case ev of DisposeModel _ \<Rightarrow> True | _ \<Rightarrow> False) evs"

section \<open>The image processor (\<open>src/lib/image-processing.ts\<close>)\<close>





section \<open>The specification's words\<close>

text \<open>The age mapping of the specification: \<open>age = clamp(raw*100 + 25, 0, 100)\<close>, then
  rounded to the nearest integer.\<close>

definition clamp :: "real \<Rightarrow> real \<Rightarrow> real \<Rightarrow> real" where
  "clamp x lo hi = (if x < lo then lo else if hi < x then hi else x)"

definition spec_age :: "real \<Rightarrow> int" where
  "spec_age raw = round (clamp (raw * 100 + 25) 0 100)"

text \<open>An age as the specification's data model has it: an integer in \<open>[0, 100]\<close>.\<close>

definition validAge :: "number \<Rightarrow> bool" where
  "validAge n = (case n of Num a \<Rightarrow> a = of_int \<lfloor>a\<rfloor> \<and> 0 \<le> a \<and> a \<le> 100 | _ \<Rightarrow> False)"

text \<open>The probability the gender model gave to a label.\<close>

fun probOf :: "gender \<Rightarrow> real \<Rightarrow> real \<Rightarrow> real" where
  "probOf Male pMale pFemale = pMale"
| "probOf Female pMale pFemale = pFemale"






section \<open>Concrete inputs\<close>

definition tfLoadOk :: tf_load where
  "tfLoadOk = \<lparr>tfReady = None, createAgeModel = None, createGenderModel = None,
               tfZeros = None, ageWarmup = None, genderWarmup = None\<rparr>"

definition tfGenderModelThrows :: tf_load where
  "tfGenderModelThrows = tfLoadOk\<lparr>createGenderModel := Some (Error ''out of memory'')\<rparr>"

definition tfWarmupThrows :: tf_load where
  "tfWarmupThrows = tfLoadOk\<lparr>genderWarmup := Some (Error ''context lost'')\<rparr>"

text \<open>The manager after a load that succeeded, after one that failed, after
  \<open>dispose\<close> of a loaded one, and in the middle of a load (suspended at the warm-up of
  the age model).\<close>

definition readyManager :: MLModelManager where
  "readyManager = loaded tfLoadOk modelManager"

definition failedManager :: MLModelManager where
  "failedManager = loaded tfGenderModelThrows modelManager"



definition pixel :: ImageData where
  "pixel = \<lparr>width = 1, height = 1, data = [0, 0, 0, 255]\<rparr>"

definition tfOk :: "number \<Rightarrow> number \<Rightarrow> number \<Rightarrow> tf_predict" where
  "tfOk raw pMale pFemale =
     \<lparr>preprocessImage = (\<lambda>_. None), ageForward = (\<lambda>_. None), ageData = (\<lambda>_. Inr [raw]),
      genderForward = (\<lambda>_. None), genderData = (\<lambda>_. Inr [pMale, pFemale]),
      random = 1 / 2\<rparr>"

definition tfGenderForwardThrows :: tf_predict where
  "tfGenderForwardThrows =
     (tfOk (Num (3 / 10)) (Num (1 / 2)) (Num (1 / 2)))
       \<lparr>genderForward := (\<lambda>_. Some (Error ''context lost''))\<rparr>"



section \<open>Properties\<close>

subsection \<open>Numbers\<close>

lemma Math_max_finite: "Math_max (Num a) (Num b) = Num (max a b)"
  by (auto simp: Math_max_def)


lemma Math_max_same: "Math_max p p = p"
  by (cases p) (simp_all add: Math_max_def)

lemma js_gt_irrefl: "\<not> js_gt p p"
  by (cases p) simp_all

lemma clamp_as_max_min:
  "Math_max (Num 0) (Math_min (Num 100) (Num y)) = Num (clamp y 0 100)"
  by (auto simp: Math_max_def Math_min_def clamp_def)

lemma age_of_finite:
  "Math_round (Math_max (Num 0) (Math_min (Num 100) (js_plus (js_times (Num x) (Num 100)) (Num 25))))
     = Num (of_int (spec_age x))"
  by (simp add: clamp_as_max_min spec_age_def round_def)

lemma age_of_PosInfinity:
  "Math_round (Math_max (Num 0) (Math_min (Num 100) (js_plus (js_times PosInfinity (Num 100)) (Num 25))))
     = Num 100"
  by (simp add: Math_max_def Math_min_def signedInfinity_def)

lemma age_of_NegInfinity:
  "Math_round (Math_max (Num 0) (Math_min (Num 100) (js_plus (js_times NegInfinity (Num 100)) (Num 25))))
     = Num 0"
  by (simp add: Math_max_def Math_min_def signedInfinity_def)

lemma spec_age_range: "0 \<le> spec_age x \<and> spec_age x \<le> 100"
  unfolding spec_age_def clamp_def round_def by (auto; linarith)

lemma validAge_spec_age: "validAge (Num (of_int (spec_age x)))"
  using spec_age_range [of x] by (simp add: validAge_def)

subsection \<open>The ways through \<open>predict\<close>\<close>

text \<open>The five ways through the \<open>try\<close> block, each with the log it leaves.\<close>

lemma predict_try_cases [case_names ageForwardThrows ageDataRejects genderForwardThrows
    genderDataRejects succeeds]:
  obtains e where "ageForward tf imageData = Some e"
      "predict_try tf imageData am gm log0 = (log0 @ [Forward am], Inl e)"
  | e where "ageForward tf imageData = None"
      "predict_try tf imageData am gm log0 =
         (log0 @ [Forward am, Alloc AgePrediction, ReadBack AgePrediction], Inl e)"
  | e where "ageForward tf imageData = None"
      "predict_try tf imageData am gm log0 =
         (log0 @ [Forward am, Alloc AgePrediction, ReadBack AgePrediction, Forward gm], Inl e)"
  | e where "ageForward tf imageData = None" "genderForward tf imageData = None"
      "predict_try tf imageData am gm log0 =
         (log0 @ [Forward am, Alloc AgePrediction, ReadBack AgePrediction, Forward gm,
                  Alloc GenderPrediction, ReadBack GenderPrediction], Inl e)"
  | ageValue genderProbs where
      "ageForward tf imageData = None" "ageData tf imageData = Inr ageValue"
      "genderForward tf imageData = None" "genderData tf imageData = Inr genderProbs"
      "predict_try tf imageData am gm log0 =
         (log0 @ [Forward am, Alloc AgePrediction, ReadBack AgePrediction, Forward gm,
                  Alloc GenderPrediction, ReadBack GenderPrediction,
                  Release AgePrediction, Release GenderPrediction, Release PreprocessedImage],
          Inr \<lparr>age = Math_round (Math_max (Num 0) (Math_min (Num 100)
                        (js_plus (js_times (typedArrayGet ageValue 0) (Num 100)) (Num 25)))),
               gender = (if js_gt (typedArrayGet genderProbs 0) (typedArrayGet genderProbs 1)
                         then Male else Female),
               ageConfidence = js_plus (Num (75 / 100)) (js_times (Num (random tf)) (Num (2 / 10))),
               genderConfidence =
                 Math_max (typedArrayGet genderProbs 0) (typedArrayGet genderProbs 1)\<rparr>)"
proof (cases "ageForward tf imageData")
  case (Some e)
  then have "predict_try tf imageData am gm log0 = (log0 @ [Forward am], Inl e)"
    by (simp add: predict_try_def)
  with Some show ?thesis by (rule that(1))
next
  case af: None
  show ?thesis
  proof (cases "ageData tf imageData")
    case (Inl e)
    with af have "predict_try tf imageData am gm log0 =
        (log0 @ [Forward am, Alloc AgePrediction, ReadBack AgePrediction], Inl e)"
      by (simp add: predict_try_def)
    with af show ?thesis by (rule that(2))
  next
    case ad: (Inr ageValue)
    show ?thesis
    proof (cases "genderForward tf imageData")
      case (Some e)
      with af ad have "predict_try tf imageData am gm log0 =
          (log0 @ [Forward am, Alloc AgePrediction, ReadBack AgePrediction, Forward gm], Inl e)"
        by (simp add: predict_try_def)
      with af show ?thesis by (rule that(3))
    next
      case gf: None
      show ?thesis
      proof (cases "genderData tf imageData")
        case (Inl e)
        with af ad gf have "predict_try tf imageData am gm log0 =
            (log0 @ [Forward am, Alloc AgePrediction, ReadBack AgePrediction, Forward gm,
                     Alloc GenderPrediction, ReadBack GenderPrediction], Inl e)"
          by (simp add: predict_try_def)
        with af gf show ?thesis by (rule that(4))
      next
        case gd: (Inr genderProbs)
        with af ad gf have "predict_try tf imageData am gm log0 =
         (log0 @ [Forward am, Alloc AgePrediction, ReadBack AgePrediction, Forward gm,
                  Alloc GenderPrediction, ReadBack GenderPrediction,
                  Release AgePrediction, Release GenderPrediction, Release PreprocessedImage],
          Inr \<lparr>age = Math_round (Math_max (Num 0) (Math_min (Num 100)
                        (js_plus (js_times (typedArrayGet ageValue 0) (Num 100)) (Num 25)))),
               gender = (if js_gt (typedArrayGet genderProbs 0) (typedArrayGet genderProbs 1)
                         then Male else Female),
               ageConfidence = js_plus (Num (75 / 100)) (js_times (Num (random tf)) (Num (2 / 10))),
               genderConfidence =
                 Math_max (typedArrayGet genderProbs 0) (typedArrayGet genderProbs 1)\<rparr>)"
          by (simp add: predict_try_def Let_def)
        with af ad gf gd show ?thesis by (rule that(5))
      qed
    qed
  qed
qed

lemma predict_ready:
  assumes "isInitialized m" "ageModel m = Some am" "genderModel m = Some gm"
    "preprocessImage tf imageData = None"
  shows "predict tf imageData m =
     predict_catch (predict_try tf imageData am gm [Preprocess, Alloc PreprocessedImage])"
  using assms by (simp add: predict_def)

lemma predict_unready:
  assumes "\<not> isInitialized m \<or> ageModel m = None \<or> genderModel m = None"
  shows "predict tf imageData m = ([], Inl NotLoadedError)"
proof (cases "isInitialized m")
  case False
  then show ?thesis by (simp add: predict_def)
next
  case i: True
  show ?thesis
  proof (cases "ageModel m")
    case None
    with i show ?thesis by (simp add: predict_def)
  next
    case a: (Some am)
    with assms i have "genderModel m = None" by simp
    with i a show ?thesis by (simp add: predict_def)
  qed
qed

lemma predict_guard:
  assumes "predict tf imageData m = (evs, Inr r)"
  obtains am gm where "isInitialized m" "ageModel m = Some am" "genderModel m = Some gm"
    "preprocessImage tf imageData = None"
    "predict_try tf imageData am gm [Preprocess, Alloc PreprocessedImage] = (evs, Inr r)"
proof -
  from assms have i: "isInitialized m"
    by (cases "isInitialized m") (simp_all add: predict_def NotLoadedError_def)
  from assms i obtain am where a: "ageModel m = Some am"
    by (cases "ageModel m") (simp_all add: predict_def NotLoadedError_def)
  from assms i a obtain gm where g: "genderModel m = Some gm"
    by (cases "genderModel m") (simp_all add: predict_def NotLoadedError_def)
  from assms i a g have p: "preprocessImage tf imageData = None"
    by (cases "preprocessImage tf imageData") (simp_all add: predict_def)
  have "predict_try tf imageData am gm [Preprocess, Alloc PreprocessedImage] = (evs, Inr r)"
    using assms unfolding predict_ready [OF i a g p]
    by (cases rule: predict_try_cases [where tf = tf and imageData = imageData and am = am
          and gm = gm and ?log0.0 = "[Preprocess, Alloc PreprocessedImage]"])
       (simp_all add: predict_catch_def)
  with i a g p that show ?thesis by blast
qed

lemma predict_succeeds:
  assumes "predict tf imageData m = (evs, Inr r)"
  obtains am gm ageValue genderProbs where
    "isInitialized m" "ageModel m = Some am" "genderModel m = Some gm"
    "ageData tf imageData = Inr ageValue" "genderData tf imageData = Inr genderProbs"
    "evs = [Preprocess, Alloc PreprocessedImage, Forward am, Alloc AgePrediction,
            ReadBack AgePrediction, Forward gm, Alloc GenderPrediction,
            ReadBack GenderPrediction, Release AgePrediction, Release GenderPrediction,
            Release PreprocessedImage]"
    "age r = Math_round (Math_max (Num 0) (Math_min (Num 100)
               (js_plus (js_times (typedArrayGet ageValue 0) (Num 100)) (Num 25))))"
    "gender r = (if js_gt (typedArrayGet genderProbs 0) (typedArrayGet genderProbs 1)
                 then Male else Female)"
    "genderConfidence r = Math_max (typedArrayGet genderProbs 0) (typedArrayGet genderProbs 1)"
proof -
  from assms obtain am gm where g: "isInitialized m" "ageModel m = Some am"
    "genderModel m = Some gm"
    and t: "predict_try tf imageData am gm [Preprocess, Alloc PreprocessedImage] = (evs, Inr r)"
    by (rule predict_guard)
  from t show ?thesis
  proof (cases rule: predict_try_cases [where tf = tf and imageData = imageData and am = am
          and gm = gm and ?log0.0 = "[Preprocess, Alloc PreprocessedImage]"])
    case (succeeds ageValue genderProbs)
    with t g show ?thesis by (intro that [of am gm ageValue genderProbs]) auto
  qed simp_all
qed

subsection \<open>The ways through \<open>loadModels\<close>\<close>

lemmas load_defs =
  loadModels_def loaded_def loadModels_enter_def loadModels_afterReady_def
  loadModels_afterAgeWarmup_def loadModels_afterGenderWarmup_def loadModels_catch_def
  current_def setIsLoading_def setIsLoaded_def setError_def setProgress_def logEvent_def
  getLoadingState_def progressOf_def Let_def

text \<open>The seven outcomes of a load: the first call that throws, or none.\<close>

lemma tf_load_cases [case_names readyFails ageModelFails genderModelFails zerosFails
    ageWarmupFails genderWarmupFails allSucceed]:
  obtains e where "tfReady tf = Some e"
  | e where "tfReady tf = None" "createAgeModel tf = Some e"
  | e where "tfReady tf = None" "createAgeModel tf = None" "createGenderModel tf = Some e"
  | e where "tfReady tf = None" "createAgeModel tf = None" "createGenderModel tf = None"
      "tfZeros tf = Some e"
  | e where "tfReady tf = None" "createAgeModel tf = None" "createGenderModel tf = None"
      "tfZeros tf = None" "ageWarmup tf = Some e"
  | e where "tfReady tf = None" "createAgeModel tf = None" "createGenderModel tf = None"
      "tfZeros tf = None" "ageWarmup tf = None" "genderWarmup tf = Some e"
  | "tfReady tf = None" "createAgeModel tf = None" "createGenderModel tf = None"
      "tfZeros tf = None" "ageWarmup tf = None" "genderWarmup tf = None"
proof (cases "tfReady tf")
  case (Some e)
  then show ?thesis by (rule that(1))
next
  case c1: None
  show ?thesis
  proof (cases "createAgeModel tf")
    case (Some e)
    with c1 show ?thesis by (rule that(2))
  next
    case c2: None
    show ?thesis
    proof (cases "createGenderModel tf")
      case (Some e)
      with c1 c2 show ?thesis by (rule that(3))
    next
      case c3: None
      show ?thesis
      proof (cases "tfZeros tf")
        case (Some e)
        with c1 c2 c3 show ?thesis by (rule that(4))
      next
        case c4: None
        show ?thesis
        proof (cases "ageWarmup tf")
          case (Some e)
          with c1 c2 c3 c4 show ?thesis by (rule that(5))
        next
          case c5: None
          show ?thesis
          proof (cases "genderWarmup tf")
            case (Some e)
            with c1 c2 c3 c4 c5 show ?thesis by (rule that(6))
          next
            case None
            with c1 c2 c3 c4 c5 show ?thesis by (rule that(7))
          qed
        qed
      qed
    qed
  qed
qed

text \<open>The concrete managers, evaluated.\<close>

lemma readyManager_eq:
  "readyManager =
     \<lparr>ageModel = Some AgeModel, genderModel = Some GenderModel, isInitialized = True,
      loadingState = \<lparr>isLoading = False, isLoaded = True, error = None, progress = 100\<rparr>,
      tfLog = [Construct AgeModel, Construct GenderModel, Alloc DummyInput, Forward AgeModel,
               Alloc WarmupAgeOutput, Forward GenderModel, Alloc WarmupGenderOutput,
               Release DummyInput]\<rparr>"
  by (simp add: readyManager_def tfLoadOk_def modelManager_def load_defs)

lemma failedManager_eq:
  "failedManager =
     \<lparr>ageModel = Some AgeModel, genderModel = None, isInitialized = False,
      loadingState = \<lparr>isLoading = False, isLoaded = False, error = Some ''out of memory'',
                      progress = 60\<rparr>,
      tfLog = [Construct AgeModel]\<rparr>"
  by (simp add: failedManager_def tfGenderModelThrows_def tfLoadOk_def modelManager_def load_defs)



lemma predict_tfOk_ready:
  "predict (tfOk raw pMale pFemale) imageData readyManager =
     ([Preprocess, Alloc PreprocessedImage, Forward AgeModel, Alloc AgePrediction,
       ReadBack AgePrediction, Forward GenderModel, Alloc GenderPrediction,
       ReadBack GenderPrediction, Release AgePrediction, Release GenderPrediction,
       Release PreprocessedImage],
      Inr \<lparr>age = Math_round (Math_max (Num 0) (Math_min (Num 100)
                    (js_plus (js_times raw (Num 100)) (Num 25)))),
           gender = (if js_gt pMale pFemale then Male else Female),
           ageConfidence = Num (17 / 20),
           genderConfidence = Math_max pMale pFemale\<rparr>)"
  by (simp add: predict_def predict_catch_def predict_try_def readyManager_eq tfOk_def
        typedArrayGet_def)

lemma loadModels_initialized: "isInitialized m \<Longrightarrow> loadModels tf m = []"
  by (simp add: loadModels_def loadModels_enter_def)

lemma load_failure_not_initialized:
  assumes "\<not> isInitialized m" "firstFailure tf = Some e"
  shows "\<not> isInitialized (loaded tf m)"
  using assms
  by (cases tf rule: tf_load_cases) (simp_all add: firstFailure_def load_defs)









lemma suspensions_in_trace:
  "set (suspensions tf m) \<subseteq> set (loadModels tf m)"
  by (cases "isInitialized m"; cases tf rule: tf_load_cases)
     (simp_all add: suspensions_def load_defs)

lemma loadModels_enter_restarts:
  assumes "\<not> isInitialized m"
  shows "snd (loadModels_enter m) = AwaitTfReady"
    and "current m (fst (loadModels_enter m))
        = m\<lparr>loadingState :=
              (loadingState m)\<lparr>isLoading := True, error := None, progress := 0\<rparr>\<rparr>"
    and "loadModels tf m ! 2 = current m (fst (loadModels_enter m))"
  using assms
  by (cases tf rule: tf_load_cases; simp add: load_defs)+

lemma load_success:
  assumes "\<not> isInitialized m" "firstFailure tf = None"
  shows "isInitialized (loaded tf m)"
    and "getLoadingState (loaded tf m)
           = (getLoadingState m)\<lparr>isLoading := False, isLoaded := True, error := None,
                                 progress := 100\<rparr>"
  using assms
  by (cases tf rule: tf_load_cases; simp add: firstFailure_def load_defs)+

lemma load_failure_error:
  assumes "\<not> isInitialized m" "firstFailure tf = Some e"
  shows "error (getLoadingState (loaded tf m))
           = Some (case e of Error msg \<Rightarrow> msg | NonError \<Rightarrow> ''Failed to load models'')"
  using assms
  by (cases tf rule: tf_load_cases) (simp_all add: firstFailure_def load_defs)


subsection \<open>The geometry of \<open>processImageElement\<close>\<close>



section \<open>The claims\<close>

subsection \<open>C1: release of the tensor buffers in \<open>predict\<close>\<close>

text \<open>
  On the way that returns a prediction the three buffers are released once each, and on
  every way the input buffer is released as often as it was handed out. But the \<open>catch\<close>
  block releases the input only: once the age model's forward pass has returned its
  output, every way that throws leaves that output unreleased.
\<close>

lemma predict_success_releases_once:
  assumes "predict tf imageData m = (evs, Inr r)"
  shows "allocated evs = [PreprocessedImage, AgePrediction, GenderPrediction]"
    and "releases evs PreprocessedImage = 1" and "releases evs AgePrediction = 1"
    and "releases evs GenderPrediction = 1" and "leaked evs = []"
proof -
  from assms obtain am gm where
    "evs = [Preprocess, Alloc PreprocessedImage, Forward am, Alloc AgePrediction,
            ReadBack AgePrediction, Forward gm, Alloc GenderPrediction,
            ReadBack GenderPrediction, Release AgePrediction, Release GenderPrediction,
            Release PreprocessedImage]"
    by (rule predict_succeeds)
  then show "allocated evs = [PreprocessedImage, AgePrediction, GenderPrediction]"
    and "releases evs PreprocessedImage = 1" and "releases evs AgePrediction = 1"
    and "releases evs GenderPrediction = 1" and "leaked evs = []"
    by (simp_all add: allocated_def releases_def leaked_def)
qed

lemma predict_input_released:
  "releases (fst (predict tf imageData m)) PreprocessedImage
     = count_list (fst (predict tf imageData m)) (Alloc PreprocessedImage)"
proof (cases "isInitialized m \<and> ageModel m \<noteq> None \<and> genderModel m \<noteq> None
                \<and> preprocessImage tf imageData = None")
  case True
  then obtain am gm where r: "isInitialized m" "ageModel m = Some am" "genderModel m = Some gm"
    "preprocessImage tf imageData = None" by auto
  show ?thesis unfolding predict_ready [OF r]
    by (cases rule: predict_try_cases [where tf = tf and imageData = imageData and am = am
          and gm = gm and ?log0.0 = "[Preprocess, Alloc PreprocessedImage]"])
       (simp_all add: predict_catch_def releases_def)
next
  case False
  then show ?thesis
    by (cases "isInitialized m"; cases "ageModel m"; cases "genderModel m";
        cases "preprocessImage tf imageData")
       (simp_all add: predict_def releases_def)
qed

lemma predict_failure_leaks:
  assumes "isInitialized m" "ageModel m = Some am" "genderModel m = Some gm"
    "preprocessImage tf imageData = None" "ageForward tf imageData = None"
    "predict tf imageData m = (evs, Inl e)"
  shows "AgePrediction \<in> set (leaked evs)"
  using assms(5,6) unfolding predict_ready [OF assms(1-4)]
  by (cases rule: predict_try_cases [where tf = tf and imageData = imageData and am = am
          and gm = gm and ?log0.0 = "[Preprocess, Alloc PreprocessedImage]"])
     (auto simp add: predict_catch_def releases_def leaked_def allocated_def)

text \<open>
  Claim C1 asks that every buffer is released exactly once on every exit path. The code
  at a prediction whose gender forward pass throws: the log of the call and the error it
  throws; the age output was handed out and is never released.
\<close>

theorem predict_error_path_leaks:
  "predict tfGenderForwardThrows pixel readyManager =
     ([Preprocess, Alloc PreprocessedImage, Forward AgeModel, Alloc AgePrediction,
       ReadBack AgePrediction, Forward GenderModel, Release PreprocessedImage],
      Inl (Error ''Prediction failed: context lost'')) \<and>
   releases (fst (predict tfGenderForwardThrows pixel readyManager)) AgePrediction = 0 \<and>
   leaked (fst (predict tfGenderForwardThrows pixel readyManager)) = [AgePrediction]"
  by (simp add: predict_def predict_catch_def predict_try_def readyManager_eq tfOk_def
        tfGenderForwardThrows_def typedArrayGet_def releases_def leaked_def allocated_def)

subsection \<open>C2: progress during a load\<close>




subsection \<open>C3: the geometry of the normalized image\<close>




subsection \<open>C4: a load that fails\<close>

text \<open>
  Claim C4, amended. When a call of \<open>loadModels\<close> on a manager that is not initialized
  meets an exception, it ends with \<open>error\<close> set to the message of the exception (to
  ``Failed to load models'' when the thrown value is not an \<open>Error\<close>), \<open>isLoading\<close>
  false, \<open>isLoaded\<close> as it was and \<open>isInitialized\<close> false. No model is disposed: a
  model constructed before the failure stays in its field.
\<close>

theorem loadModels_failure:
  assumes "\<not> isInitialized m" and "firstFailure tf = Some e"
  shows "error (getLoadingState (loaded tf m))
           = Some (case e of Error msg \<Rightarrow> msg | NonError \<Rightarrow> ''Failed to load models'') \<and>
         isLoading (getLoadingState (loaded tf m)) = False \<and>
         isLoaded (getLoadingState (loaded tf m)) = isLoaded (getLoadingState m) \<and>
         isInitialized (loaded tf m) = False \<and>
         modelDisposals (tfLog (loaded tf m)) = modelDisposals (tfLog m) \<and>
         ageModel (loaded tf m)
           = (if tfReady tf = None \<and> createAgeModel tf = None then Some AgeModel
              else ageModel m) \<and>
         genderModel (loaded tf m)
           = (if tfReady tf = None \<and> createAgeModel tf = None \<and> createGenderModel tf = None
              then Some GenderModel else genderModel m)"
  using assms
  by (cases tf rule: tf_load_cases)
     (simp_all add: firstFailure_def modelDisposals_def load_defs)

theorem loadModels_failure_witness:
  "\<not> isInitialized modelManager \<and>
   firstFailure tfWarmupThrows = Some (Error ''context lost'') \<and>
   loaded tfWarmupThrows modelManager =
     \<lparr>ageModel = Some AgeModel, genderModel = Some GenderModel, isInitialized = False,
      loadingState = \<lparr>isLoading = False, isLoaded = False, error = Some ''context lost'',
                      progress = 90\<rparr>,
      tfLog = [Construct AgeModel, Construct GenderModel, Alloc DummyInput, Forward AgeModel,
               Alloc WarmupAgeOutput, Forward GenderModel]\<rparr>"
proof -
  have h: "\<not> isInitialized modelManager" by (simp add: modelManager_def)
  have f: "firstFailure tfWarmupThrows = Some (Error ''context lost'')"
    by (simp add: firstFailure_def tfWarmupThrows_def tfLoadOk_def)
  from loadModels_failure [OF h f] h f show ?thesis
    by (simp add: tfWarmupThrows_def tfLoadOk_def modelManager_def load_defs)
qed

text \<open>
  The claim as stated fails when the construction of the gender model throws: the age
  model is in its field, not disposed, and the gender model is missing.
\<close>

theorem loadModels_failure_keeps_model_counterexample:
  "loaded tfGenderModelThrows modelManager =
     \<lparr>ageModel = Some AgeModel, genderModel = None, isInitialized = False,
      loadingState = \<lparr>isLoading = False, isLoaded = False, error = Some ''out of memory'',
                      progress = 60\<rparr>,
      tfLog = [Construct AgeModel]\<rparr> \<and>
   modelDisposals [Construct AgeModel] = []"
  by (simp add: tfGenderModelThrows_def tfLoadOk_def modelManager_def modelDisposals_def
        load_defs)

subsection \<open>C5: \<open>loadModels\<close> after a terminal state\<close>

text \<open>
  Claim C5, amended. After a load that succeeded, a later call of \<open>loadModels\<close>
  changes nothing. After a load that failed (\<open>error\<close> is set), a later call does
  restart the load: before its first \<open>await\<close> it has set \<open>isLoading\<close>, cleared \<open>error\<close>
  and reset \<open>progress\<close> to 0, and when nothing throws it ends with \<open>isLoaded\<close> true,
  \<open>error\<close> null and \<open>progress\<close> 100.
\<close>

theorem loadModels_after_terminal:
  "(\<not> isInitialized m \<and> firstFailure tf = None \<longrightarrow>
      isLoaded (getLoadingState (loaded tf m)) \<and>
      loadModels tf' (loaded tf m) = [] \<and> loaded tf' (loaded tf m) = loaded tf m) \<and>
   (\<not> isInitialized m \<and> firstFailure tf = Some e \<longrightarrow>
      error (getLoadingState (loaded tf m)) \<noteq> None \<and>
      getLoadingState (loadModels tf' (loaded tf m) ! 2)
        = (getLoadingState (loaded tf m))\<lparr>isLoading := True, error := None, progress := 0\<rparr> \<and>
      (firstFailure tf' = None \<longrightarrow>
         getLoadingState (loaded tf' (loaded tf m))
           = (getLoadingState (loaded tf m))\<lparr>isLoading := False, isLoaded := True,
                error := None, progress := 100\<rparr>))"
proof -
  have "isLoaded (getLoadingState (loaded tf m)) \<and>
      loadModels tf' (loaded tf m) = [] \<and> loaded tf' (loaded tf m) = loaded tf m"
    if "\<not> isInitialized m" and "firstFailure tf = None"
  proof -
    from that have i: "isInitialized (loaded tf m)" by (rule load_success(1))
    then have "loadModels tf' (loaded tf m) = []" by (rule loadModels_initialized)
    moreover from this have "loaded tf' (loaded tf m) = loaded tf m"
      by (simp add: loaded_def [of tf'] current_def)
    moreover from load_success(2) [OF that] have "isLoaded (getLoadingState (loaded tf m))"
      by simp
    ultimately show ?thesis by simp
  qed
  moreover have "error (getLoadingState (loaded tf m)) \<noteq> None \<and>
      getLoadingState (loadModels tf' (loaded tf m) ! 2)
        = (getLoadingState (loaded tf m))\<lparr>isLoading := True, error := None, progress := 0\<rparr> \<and>
      (firstFailure tf' = None \<longrightarrow>
         getLoadingState (loaded tf' (loaded tf m))
           = (getLoadingState (loaded tf m))\<lparr>isLoading := False, isLoaded := True,
                error := None, progress := 100\<rparr>)"
    if "\<not> isInitialized m" and "firstFailure tf = Some e"
  proof -
    from that have n: "\<not> isInitialized (loaded tf m)" by (rule load_failure_not_initialized)
    from load_failure_error [OF that] have "error (getLoadingState (loaded tf m)) \<noteq> None"
      by simp
    moreover from loadModels_enter_restarts(2) [OF n] loadModels_enter_restarts(3) [OF n, of tf']
    have "getLoadingState (loadModels tf' (loaded tf m) ! 2)
        = (getLoadingState (loaded tf m))\<lparr>isLoading := True, error := None, progress := 0\<rparr>"
      by (simp add: getLoadingState_def)
    moreover from load_success(2) [OF n]
    have "firstFailure tf' = None \<longrightarrow>
         getLoadingState (loaded tf' (loaded tf m))
           = (getLoadingState (loaded tf m))\<lparr>isLoading := False, isLoaded := True,
                error := None, progress := 100\<rparr>"
      by simp
    ultimately show ?thesis by simp
  qed
  ultimately show ?thesis by blast
qed

theorem loadModels_after_terminal_witness:
  "\<not> isInitialized modelManager \<and> firstFailure tfLoadOk = None \<and>
   loadModels tfLoadOk (loaded tfLoadOk modelManager) = [] \<and>
   firstFailure tfGenderModelThrows = Some (Error ''out of memory'') \<and>
   getLoadingState (loaded tfGenderModelThrows modelManager)
     = \<lparr>isLoading = False, isLoaded = False, error = Some ''out of memory'', progress = 60\<rparr> \<and>
   getLoadingState (loadModels tfLoadOk (loaded tfGenderModelThrows modelManager) ! 2)
     = \<lparr>isLoading = True, isLoaded = False, error = None, progress = 0\<rparr> \<and>
   getLoadingState (loaded tfLoadOk (loaded tfGenderModelThrows modelManager))
     = \<lparr>isLoading = False, isLoaded = True, error = None, progress = 100\<rparr>"
proof -
  have h: "\<not> isInitialized modelManager" by (simp add: modelManager_def)
  have n: "firstFailure tfLoadOk = None" by (simp add: firstFailure_def tfLoadOk_def)
  have f: "firstFailure tfGenderModelThrows = Some (Error ''out of memory'')"
    by (simp add: firstFailure_def tfGenderModelThrows_def tfLoadOk_def)
  have g: "getLoadingState (loaded tfGenderModelThrows modelManager)
     = \<lparr>isLoading = False, isLoaded = False, error = Some ''out of memory'', progress = 60\<rparr>"
    using failedManager_eq by (simp add: failedManager_def getLoadingState_def)
  from loadModels_after_terminal [where m = modelManager and tf = tfLoadOk and tf' = tfLoadOk]
    loadModels_after_terminal [where m = modelManager and tf = tfGenderModelThrows
      and e = "Error ''out of memory''" and tf' = tfLoadOk] h n f g
  show ?thesis by simp
qed

text \<open>
  The claim as stated fails on the manager left by a failed load: a second call clears
  the error, resets the progress from 60 to 0 and loads.
\<close>

theorem loadModels_retry_counterexample:
  "getLoadingState failedManager
     = \<lparr>isLoading = False, isLoaded = False, error = Some ''out of memory'', progress = 60\<rparr> \<and>
   getLoadingState (loadModels tfLoadOk failedManager ! 2)
     = \<lparr>isLoading = True, isLoaded = False, error = None, progress = 0\<rparr> \<and>
   getLoadingState (loaded tfLoadOk failedManager)
     = \<lparr>isLoading = False, isLoaded = True, error = None, progress = 100\<rparr>"
  by (simp add: failedManager_eq tfLoadOk_def load_defs)

subsection \<open>C6: \<open>loadModels\<close> while a load is in progress\<close>




subsection \<open>C7: the age\<close>

text \<open>
  Claim C7, amended. A successful prediction read the array of the age output; with
  \<open>raw\<close> its first element, the returned age is \<open>clamp(raw*100 + 25, 0, 100)\<close> rounded
  to the nearest integer, an integer in \<open>[0, 100]\<close>, when \<open>raw\<close> is a finite number; it
  is 100 for \<open>+Infinity\<close> and 0 for \<open>-Infinity\<close>; and it is NaN, not an age, when \<open>raw\<close>
  is NaN (or the array is empty).
\<close>

theorem predict_age:
  assumes "predict tf imageData m = (evs, Inr r)"
  shows "\<exists>ageValue. ageData tf imageData = Inr ageValue \<and>
     (case typedArrayGet ageValue 0 of
        Num raw \<Rightarrow> age r = Num (of_int (spec_age raw)) \<and> validAge (age r)
      | PosInfinity \<Rightarrow> age r = Num 100
      | NegInfinity \<Rightarrow> age r = Num 0
      | NaN \<Rightarrow> age r = NaN \<and> \<not> validAge (age r))"
proof -
  from assms obtain ageValue where d: "ageData tf imageData = Inr ageValue"
    and a: "age r = Math_round (Math_max (Num 0) (Math_min (Num 100)
               (js_plus (js_times (typedArrayGet ageValue 0) (Num 100)) (Num 25))))"
    by (rule predict_succeeds)
  have "case typedArrayGet ageValue 0 of
        Num raw \<Rightarrow> age r = Num (of_int (spec_age raw)) \<and> validAge (age r)
      | PosInfinity \<Rightarrow> age r = Num 100
      | NegInfinity \<Rightarrow> age r = Num 0
      | NaN \<Rightarrow> age r = NaN \<and> \<not> validAge (age r)"
  proof (cases "typedArrayGet ageValue 0")
    case (Num raw)
    with a show ?thesis by (simp only: age_of_finite number.case validAge_spec_age simp_thms)
  next
    case PosInfinity
    with a show ?thesis by (simp only: age_of_PosInfinity number.case)
  next
    case NegInfinity
    with a show ?thesis by (simp only: age_of_NegInfinity number.case)
  next
    case NaN
    with a show ?thesis by (simp add: Math_max_def Math_min_def validAge_def)
  qed
  with d show ?thesis by blast
qed

theorem predict_age_witness:
  "predict (tfOk (Num (3 / 10)) (Num (1 / 2)) (Num (1 / 2))) pixel readyManager =
     ([Preprocess, Alloc PreprocessedImage, Forward AgeModel, Alloc AgePrediction,
       ReadBack AgePrediction, Forward GenderModel, Alloc GenderPrediction,
       ReadBack GenderPrediction, Release AgePrediction, Release GenderPrediction,
       Release PreprocessedImage],
      Inr \<lparr>age = Num 55, gender = Female, ageConfidence = Num (17 / 20),
           genderConfidence = Num (1 / 2)\<rparr>) \<and>
   Num 55 = Num (of_int (spec_age (3 / 10))) \<and> validAge (Num 55)"
proof -
  have p: "predict (tfOk (Num (3 / 10)) (Num (1 / 2)) (Num (1 / 2))) pixel readyManager =
     ([Preprocess, Alloc PreprocessedImage, Forward AgeModel, Alloc AgePrediction,
       ReadBack AgePrediction, Forward GenderModel, Alloc GenderPrediction,
       ReadBack GenderPrediction, Release AgePrediction, Release GenderPrediction,
       Release PreprocessedImage],
      Inr \<lparr>age = Num 55, gender = Female, ageConfidence = Num (17 / 20),
           genderConfidence = Num (1 / 2)\<rparr>)"
    by (simp add: predict_tfOk_ready Math_max_def Math_min_def)
  from predict_age [OF p] p show ?thesis
    by (simp add: tfOk_def typedArrayGet_def)
qed

text \<open>
  The claim as stated fails when the age output is NaN: the prediction succeeds and its
  age is NaN.
\<close>

theorem predict_age_NaN_counterexample:
  "predict (tfOk NaN (Num (1 / 2)) (Num (1 / 2))) pixel readyManager =
     ([Preprocess, Alloc PreprocessedImage, Forward AgeModel, Alloc AgePrediction,
       ReadBack AgePrediction, Forward GenderModel, Alloc GenderPrediction,
       ReadBack GenderPrediction, Release AgePrediction, Release GenderPrediction,
       Release PreprocessedImage],
      Inr \<lparr>age = NaN, gender = Female, ageConfidence = Num (17 / 20),
           genderConfidence = Num (1 / 2)\<rparr>) \<and>
   \<not> validAge NaN"
  by (simp add: predict_tfOk_ready Math_max_def Math_min_def validAge_def)

subsection \<open>C8: the gender label and its confidence\<close>

text \<open>
  Claim C8. For a successful prediction whose gender output is the pair of numbers
  \<open>[pMale, pFemale]\<close>: the label is male when \<open>pMale > pFemale\<close> and female otherwise,
  the probability of the label is the maximum of the two, and \<open>genderConfidence\<close> is
  that maximum.
\<close>

theorem predict_gender_argmax:
  assumes "predict tf imageData m = (evs, Inr r)"
    and "genderData tf imageData = Inr [Num pMale, Num pFemale]"
  shows "gender r = (if pFemale < pMale then Male else Female) \<and>
         probOf (gender r) pMale pFemale = max pMale pFemale \<and>
         genderConfidence r = Num (max pMale pFemale)"
proof -
  from assms(1) obtain genderProbs where "genderData tf imageData = Inr genderProbs"
    and g: "gender r = (if js_gt (typedArrayGet genderProbs 0) (typedArrayGet genderProbs 1)
                 then Male else Female)"
    and c: "genderConfidence r =
              Math_max (typedArrayGet genderProbs 0) (typedArrayGet genderProbs 1)"
    by (rule predict_succeeds)
  with assms(2) have p: "genderProbs = [Num pMale, Num pFemale]" by simp
  from g p have label: "gender r = (if pFemale < pMale then Male else Female)"
    by (simp add: typedArrayGet_def)
  from c p have "genderConfidence r = Num (max pMale pFemale)"
    by (simp add: typedArrayGet_def Math_max_finite)
  moreover from label have "probOf (gender r) pMale pFemale = max pMale pFemale"
    by (simp add: max_def)
  ultimately show ?thesis using label by simp
qed

theorem predict_gender_argmax_witness:
  "predict (tfOk (Num (3 / 10)) (Num (7 / 10)) (Num (3 / 10))) pixel readyManager =
     ([Preprocess, Alloc PreprocessedImage, Forward AgeModel, Alloc AgePrediction,
       ReadBack AgePrediction, Forward GenderModel, Alloc GenderPrediction,
       ReadBack GenderPrediction, Release AgePrediction, Release GenderPrediction,
       Release PreprocessedImage],
      Inr \<lparr>age = Num 55, gender = Male, ageConfidence = Num (17 / 20),
           genderConfidence = Num (7 / 10)\<rparr>) \<and>
   probOf Male (7 / 10) (3 / 10) = max (7 / 10) (3 / 10)"
proof -
  have p: "predict (tfOk (Num (3 / 10)) (Num (7 / 10)) (Num (3 / 10))) pixel readyManager =
     ([Preprocess, Alloc PreprocessedImage, Forward AgeModel, Alloc AgePrediction,
       ReadBack AgePrediction, Forward GenderModel, Alloc GenderPrediction,
       ReadBack GenderPrediction, Release AgePrediction, Release GenderPrediction,
       Release PreprocessedImage],
      Inr \<lparr>age = Num 55, gender = Male, ageConfidence = Num (17 / 20),
           genderConfidence = Num (7 / 10)\<rparr>)"
    by (simp add: predict_tfOk_ready Math_max_def Math_min_def)
  have d: "genderData (tfOk (Num (3 / 10)) (Num (7 / 10)) (Num (3 / 10))) pixel
            = Inr [Num (7 / 10), Num (3 / 10)]"
    by (simp add: tfOk_def)
  from predict_gender_argmax [OF p d] p show ?thesis by simp
qed

subsection \<open>C9: \<open>predict\<close> on a manager that is not ready\<close>

text \<open>
  Claim C9. While the manager is not ready (\<open>isInitialized\<close> false, or a model
  missing), \<open>predict\<close> throws the error ``Models not loaded'' and asks nothing of the
  library: the log of the call is empty, so neither the preprocessing nor a forward pass
  was started. The manager left by a load that failed is such a manager.
\<close>

theorem predict_not_loaded:
  "(\<not> isInitialized m \<or> ageModel m = None \<or> genderModel m = None \<longrightarrow>
      predict tf imageData m = ([], Inl NotLoadedError)) \<and>
   (\<not> isInitialized m \<and> firstFailure tfl = Some e \<longrightarrow>
      predict tf imageData (loaded tfl m) = ([], Inl NotLoadedError))"
proof -
  have "predict tf imageData (loaded tfl m) = ([], Inl NotLoadedError)"
    if "\<not> isInitialized m" and "firstFailure tfl = Some e"
  proof -
    from that have "\<not> isInitialized (loaded tfl m)" by (rule load_failure_not_initialized)
    then show ?thesis by (simp add: predict_unready)
  qed
  then show ?thesis by (simp add: predict_unready)
qed

theorem predict_not_loaded_witness:
  "\<not> isInitialized modelManager \<and>
   predict (tfOk (Num (3 / 10)) (Num (1 / 2)) (Num (1 / 2))) pixel modelManager
     = ([], Inl (Error ''Models not loaded. Call loadModels() first.'')) \<and>
   firstFailure tfWarmupThrows = Some (Error ''context lost'') \<and>
   predict (tfOk (Num (3 / 10)) (Num (1 / 2)) (Num (1 / 2))) pixel
       (loaded tfWarmupThrows modelManager)
     = ([], Inl (Error ''Models not loaded. Call loadModels() first.''))"
proof -
  have h: "\<not> isInitialized modelManager" by (simp add: modelManager_def)
  have f: "firstFailure tfWarmupThrows = Some (Error ''context lost'')"
    by (simp add: firstFailure_def tfWarmupThrows_def tfLoadOk_def)
  from predict_not_loaded [of modelManager "tfOk (Num (3 / 10)) (Num (1 / 2)) (Num (1 / 2))"
      pixel tfWarmupThrows "Error ''context lost''"] h f
  show ?thesis by (simp add: NotLoadedError_def)
qed

subsection \<open>C10: a tie between the two probabilities\<close>

text \<open>
  Claim C10. For a successful prediction whose gender output has the same value \<open>p\<close>
  twice, the label is female and \<open>genderConfidence\<close> is \<open>p\<close>: the comparison
  \<open>maleProb > femaleProb\<close> is strict.
\<close>

theorem predict_gender_tie:
  assumes "predict tf imageData m = (evs, Inr r)"
    and "genderData tf imageData = Inr [p, p]"
  shows "gender r = Female \<and> genderConfidence r = p"
proof -
  from assms(1) obtain genderProbs where "genderData tf imageData = Inr genderProbs"
    and g: "gender r = (if js_gt (typedArrayGet genderProbs 0) (typedArrayGet genderProbs 1)
                 then Male else Female)"
    and c: "genderConfidence r =
              Math_max (typedArrayGet genderProbs 0) (typedArrayGet genderProbs 1)"
    by (rule predict_succeeds)
  with assms(2) have "genderProbs = [p, p]" by simp
  with g c show ?thesis
    by (simp add: typedArrayGet_def js_gt_irrefl Math_max_same)
qed

theorem predict_gender_tie_witness:
  "predict (tfOk (Num (3 / 10)) (Num (1 / 2)) (Num (1 / 2))) pixel readyManager =
     ([Preprocess, Alloc PreprocessedImage, Forward AgeModel, Alloc AgePrediction,
       ReadBack AgePrediction, Forward GenderModel, Alloc GenderPrediction,
       ReadBack GenderPrediction, Release AgePrediction, Release GenderPrediction,
       Release PreprocessedImage],
      Inr \<lparr>age = Num 55, gender = Female, ageConfidence = Num (17 / 20),
           genderConfidence = Num (1 / 2)\<rparr>) \<and>
   genderData (tfOk (Num (3 / 10)) (Num (1 / 2)) (Num (1 / 2))) pixel
     = Inr [Num (1 / 2), Num (1 / 2)]"
proof -
  have p: "predict (tfOk (Num (3 / 10)) (Num (1 / 2)) (Num (1 / 2))) pixel readyManager =
     ([Preprocess, Alloc PreprocessedImage, Forward AgeModel, Alloc AgePrediction,
       ReadBack AgePrediction, Forward GenderModel, Alloc GenderPrediction,
       ReadBack GenderPrediction, Release AgePrediction, Release GenderPrediction,
       Release PreprocessedImage],
      Inr \<lparr>age = Num 55, gender = Female, ageConfidence = Num (17 / 20),
           genderConfidence = Num (1 / 2)\<rparr>)"
    by (simp add: predict_tfOk_ready Math_max_def Math_min_def)
  have d: "genderData (tfOk (Num (3 / 10)) (Num (1 / 2)) (Num (1 / 2))) pixel
            = Inr [Num (1 / 2), Num (1 / 2)]"
    by (simp add: tfOk_def)
  from predict_gender_tie [OF p d] p d show ?thesis by simp
qed

end
